theory Spec2Isabelle
  imports Main
begin

section \<open>Data model\<close>

text \<open>
  TypeScript \<open>number\<close> fields hold counts, currency units and millisecond time stamps;
  they are modelled as \<open>int\<close>. A \<open>Date\<close> is its \<open>getTime()\<close> value in milliseconds.
  An optional field \<open>f?: T\<close> is a \<open>T option\<close>, \<open>None\<close> standing for \<open>undefined\<close>.
  Fields that only carry presentation text are left out of the records.
\<close>

subsection \<open>models/user.model.ts (src/unnamed/part_005)\<close>

record UserBorrowInfo =
  libraryId :: string
  currentBorrowedCount :: int
  maxBooksAllowed :: int
  fines :: int
  overdueBooks :: int
  isEligible :: bool

datatype BorrowStatus = Borrowed | Returned | Overdue | Lost | Damaged

record BorrowHistoryEntry =
  entryId :: string
  bookId :: string
  borrowDate :: int
  dueDate :: int
  returnedDate :: "int option"
  fineAmount :: int
  finePaid :: bool
  status :: BorrowStatus
  renewalCount :: "int option"
  maxRenewalsAllowed :: "int option"

datatype GenreStatistic = GenreStatistic string int int

datatype Achievement = Achievement string string

record UserStatistics =
  totalBooksRead :: int
  currentlyBorrowed :: int
  statOverdueBooks :: int
  totalFines :: int
  averageReadingTime :: int
  favoriteGenres :: "GenreStatistic list"
  readingStreak :: int
  monthlyReadingGoal :: int
  booksReadThisMonth :: int
  yearlyReadingGoal :: "int option"
  booksReadThisYear :: "int option"
  memberRanking :: "int option"
  achievementsUnlocked :: "Achievement list option"

subsection \<open>models/fine.model.ts (src/unnamed/part_005)\<close>

datatype FineStatus = PENDING | PAID | WAIVED | OVERDUE

datatype PaymentStatus = PAYMENT_PENDING | COMPLETED | FAILED | REFUNDED | CANCELLED

datatype PaymentMethod = Card | Upi | Netbanking | Wallet | Cash

record FineRecord =
  fineId :: string
  fineMemberId :: string
  borrowId :: string
  fineDueDate :: int
  returnDate :: "int option"
  daysOverdue :: int
  dailyFine :: int
  totalFine :: int
  fineStatus :: FineStatus
  paymentId :: "string option"

record CustomerInfo =
  customerName :: string
  customerEmail :: string
  customerPhone :: "string option"

record PaymentRequest =
  memberId :: string
  fineIds :: "string list"
  totalAmount :: int
  paymentMethod :: PaymentMethod
  customerInfo :: CustomerInfo

record DummyPaymentForm =
  formPaymentMethod :: PaymentMethod
  cardNumber :: "string option"
  cardName :: "string option"
  expiryMonth :: "string option"
  expiryYear :: "string option"
  cvv :: "string option"
  upiId :: "string option"
  bankName :: "string option"
  walletProvider :: "string option"
  walletNumber :: "string option"

datatype MonthlyFineData = MonthlyFineData string int int int int int

datatype PaymentSummary = PaymentSummary string int PaymentMethod PaymentStatus int

record FineStatistics =
  totalOutstandingFines :: int
  totalOverdueBooks :: int
  totalPaidFines :: int
  totalWaivedFines :: "int option"
  averageDaysOverdue :: int
  averageFineAmount :: "int option"
  finesByMonth :: "MonthlyFineData list"
  paymentHistory :: "PaymentSummary list"
  finesByCategory :: "(string \<times> int) list option"

subsection \<open>HTTP outcomes\<close>

text \<open>
  An \<open>Observable\<close> returned by \<open>HttpClient\<close> either emits one value or fails with an
  \<open>HttpErrorResponse\<close>; it is modelled by the sum \<open>HttpErrorResponse + 'a\<close>
  (\<open>Inl\<close> the failure).
\<close>

record HttpErrorResponse =
  httpStatus :: int
  httpMessage :: "string option"

type_synonym 'a observable = "HttpErrorResponse + 'a"

section \<open>UserDataService (services/user-data.service.ts, src/unnamed/part_009)\<close>

record UserData =
  borrowInfo :: "UserBorrowInfo option"
  borrowHistory :: "BorrowHistoryEntry list"
  statistics :: "UserStatistics option"
  isLoading :: bool
  error :: "string option"

definition getCurrentBorrowInfo :: "UserData \<Rightarrow> UserBorrowInfo option" where
  "getCurrentBorrowInfo d = borrowInfo d"

definition getCurrentBorrowHistory :: "UserData \<Rightarrow> BorrowHistoryEntry list" where
  "getCurrentBorrowHistory d = borrowHistory d"

definition hasOverdueBooks :: "UserData \<Rightarrow> bool" where
  "hasOverdueBooks d = list_ex (\<lambda>entry. status entry = Overdue) (getCurrentBorrowHistory d)"

definition getOverdueBooksCount :: "UserData \<Rightarrow> int" where
  "getOverdueBooksCount d =
     int (length (filter (\<lambda>entry. status entry = Overdue) (getCurrentBorrowHistory d)))"

definition getAvailableBorrowingSlots :: "UserData \<Rightarrow> int" where
  "getAvailableBorrowingSlots d =
     (case getCurrentBorrowInfo d of
        None \<Rightarrow> 0
      | Some info \<Rightarrow> max 0 (maxBooksAllowed info - currentBorrowedCount info))"

section \<open>Statistics queries (FineService in src/unnamed/part_008, services/user.service.ts)\<close>

definition defaultFineStats :: FineStatistics where
  "defaultFineStats =
     \<lparr> totalOutstandingFines = 0, totalOverdueBooks = 0, totalPaidFines = 0,
       totalWaivedFines = None, averageDaysOverdue = 0, averageFineAmount = None,
       finesByMonth = [], paymentHistory = [], finesByCategory = None \<rparr>"

text \<open>
  \<open>getFineStatistics\<close> pipes the GET of \<open>/statistics\<close> through \<open>catchError\<close>, whose handler
  returns \<open>of(defaultStats)\<close>. The argument is the outcome of the GET.
\<close>

definition getFineStatistics :: "FineStatistics observable \<Rightarrow> FineStatistics observable" where
  "getFineStatistics response =
     (case response of Inl err \<Rightarrow> Inr defaultFineStats | Inr stats \<Rightarrow> Inr stats)"

definition defaultUserStats :: UserStatistics where
  "defaultUserStats =
     \<lparr> totalBooksRead = 0, currentlyBorrowed = 0, statOverdueBooks = 0, totalFines = 0,
       averageReadingTime = 0, favoriteGenres = [], readingStreak = 0,
       monthlyReadingGoal = 0, booksReadThisMonth = 0, yearlyReadingGoal = Some 0,
       booksReadThisYear = Some 0, memberRanking = Some 0, achievementsUnlocked = Some [] \<rparr>"

definition getUserStatistics :: "UserStatistics observable \<Rightarrow> UserStatistics observable" where
  "getUserStatistics response =
     (case response of Inl err \<Rightarrow> Inr defaultUserStats | Inr stats \<Rightarrow> Inr stats)"

section \<open>FineService.processPayment (src/unnamed/part_008)\<close>

text \<open>
  JavaScript truthiness of a \<open>string | undefined\<close>: \<open>undefined\<close> and the empty string
  are falsy. \<open>s.slice(-n)\<close> keeps the last \<open>n\<close> characters, the whole string when it is
  shorter.
\<close>

definition truthy :: "string option \<Rightarrow> bool" where
  "truthy s = (case s of None \<Rightarrow> False | Some v \<Rightarrow> v \<noteq> [])"

definition slice_last :: "nat \<Rightarrow> string \<Rightarrow> string" where
  "slice_last n s = drop (length s - n) s"

text \<open>
  The body posted to \<open>/api/payments/process\<close>: the fields of the payment request and a
  \<open>paymentDetails\<close> object, which is the payment form with its \<open>cardNumber\<close> overwritten.
\<close>

record ProcessPaymentBody =
  request :: PaymentRequest
  paymentDetails :: DummyPaymentForm

definition maskedCardNumber :: "string option \<Rightarrow> string option" where
  "maskedCardNumber cn =
     (case cn of
        None \<Rightarrow> None
      | Some c \<Rightarrow> if c = [] then None else Some (''**** **** **** '' @ slice_last 4 c))"

definition requestData :: "PaymentRequest \<Rightarrow> DummyPaymentForm \<Rightarrow> ProcessPaymentBody" where
  "requestData paymentRequest paymentForm =
     \<lparr> request = paymentRequest,
       paymentDetails = paymentForm\<lparr>cardNumber := maskedCardNumber (cardNumber paymentForm)\<rparr> \<rparr>"

section \<open>BooksComponent.validateSelection (components/books/books.component.ts)\<close>

text \<open>
  The messages \<open>validateSelection\<close> shows, one constructor for each template string, with the
  number the template interpolates:
  \<^item> \<open>LimitExceeded n\<close>: "You cannot borrow more than n books in total."
  \<^item> \<open>HasUnpaidFines n\<close>: "You have pending fines of (rupee sign)n. Please clear them before borrowing."
  \<^item> \<open>HasOverdueBooks n\<close>: "You have n overdue book(s). Please return them first."
  \<^item> \<open>OtherMessage s\<close>: any other text.
  The empty message \<open>''\<close> is \<open>None\<close>. The timers that clear a message some seconds after it
  is shown are not modelled.
\<close>

datatype message = LimitExceeded int | HasUnpaidFines int | HasOverdueBooks int
  | OtherMessage string

record BooksComponent =
  userBorrowInfo :: "UserBorrowInfo option"
  selectedBooks :: "(string \<times> int) list"
  errorMessage :: "message option"
  successMessage :: "message option"

definition MAX_BOOKS_PER_USER :: int where
  "MAX_BOOKS_PER_USER = 5"

definition getTotalSelectedCopies :: "BooksComponent \<Rightarrow> int" where
  "getTotalSelectedCopies c =
     foldl (\<lambda>sum quantity. sum + quantity) 0 (map snd (selectedBooks c))"

definition showError :: "message \<Rightarrow> BooksComponent \<Rightarrow> BooksComponent" where
  "showError msg c = c\<lparr>errorMessage := Some msg, successMessage := None\<rparr>"

definition clearError :: "BooksComponent \<Rightarrow> BooksComponent" where
  "clearError c = c\<lparr>errorMessage := None\<rparr>"

definition validateSelection :: "BooksComponent \<Rightarrow> BooksComponent" where
  "validateSelection c =
     (case userBorrowInfo c of
        None \<Rightarrow> c
      | Some info \<Rightarrow>
          (let totalSelected = getTotalSelectedCopies c;
               totalAfterBorrow = currentBorrowedCount info + totalSelected
           in if totalAfterBorrow > MAX_BOOKS_PER_USER
                then showError (LimitExceeded MAX_BOOKS_PER_USER) c
              else if fines info > 0
                then showError (HasUnpaidFines (fines info)) c
              else if overdueBooks info > 0
                then showError (HasOverdueBooks (overdueBooks info)) c
              else clearError c))"

section \<open>MyBooksComponent (src/unnamed/part_011)\<close>

text \<open>
  \<open>getDaysUntilDue\<close> reads the clock (\<open>new Date()\<close>); the current time is the argument
  \<open>today\<close>, in milliseconds like the due date. \<open>Math.ceil(x / d)\<close> on integers is
  \<open>- ((- x) div d)\<close>, \<open>div\<close> rounding down.
\<close>

definition getDaysUntilDue :: "int \<Rightarrow> int \<Rightarrow> int" where
  "getDaysUntilDue today due =
     (let diffTime = due - today in - ((- diffTime) div (1000 * 60 * 60 * 24)))"

text \<open>
  JavaScript \<open>x || d\<close> on a \<open>number | undefined\<close>: \<open>undefined\<close> and \<open>0\<close> are falsy and
  give \<open>d\<close>.
\<close>

definition or_default :: "int option \<Rightarrow> int \<Rightarrow> int" where
  "or_default x d = (case x of None \<Rightarrow> d | Some v \<Rightarrow> if v = 0 then d else v)"

definition canExtendBook :: "int \<Rightarrow> BorrowHistoryEntry \<Rightarrow> bool" where
  "canExtendBook today entry =
     (status entry = Borrowed
      \<and> or_default (renewalCount entry) 0 < or_default (maxRenewalsAllowed entry) 2
      \<and> getDaysUntilDue today (dueDate entry) > - 7)"

text \<open>
  The conditions of an extension in the words of the specification: the loan is Borrowed,
  its renewal count is below its maximum of renewals (2 when the entry carries none), and
  it is not more than 7 days past its due date.
\<close>

definition spec_mayExtend :: "int \<Rightarrow> BorrowHistoryEntry \<Rightarrow> bool" where
  "spec_mayExtend today entry =
     (status entry = Borrowed
      \<and> (case renewalCount entry of None \<Rightarrow> 0 | Some n \<Rightarrow> n)
          < (case maxRenewalsAllowed entry of None \<Rightarrow> 2 | Some m \<Rightarrow> m)
      \<and> today - dueDate entry \<le> 7 * (1000 * 60 * 60 * 24))"

text \<open>
  The overdue predicate in the words of the specification: the status is Borrowed and the
  current time is past the due date.
\<close>

definition spec_isOverdue :: "int \<Rightarrow> BorrowHistoryEntry \<Rightarrow> bool" where
  "spec_isOverdue now entry = (status entry = Borrowed \<and> now > dueDate entry)"

section \<open>FinesComponent (components/fines/fines.component.ts)\<close>

record AuthUser =
  userMemberId :: string
  memberName :: string
  email :: string

record PaymentMethodInfo =
  methodId :: PaymentMethod
  isEnabled :: bool

text \<open>
  \<open>selectedFines\<close> is a \<open>Set<string>\<close>; it is the list of its members in insertion order,
  which is what \<open>Array.from\<close> returns. \<open>loadedFines\<close> is the component's field \<open>fines\<close>,
  and \<open>paymentFormValue\<close> is \<open>paymentForm.value\<close>.
\<close>

record FinesComponent =
  loadedFines :: "FineRecord list"
  filteredFines :: "FineRecord list"
  selectedFines :: "string list"
  currentUser :: "AuthUser option"
  selectedPaymentMethod :: "PaymentMethodInfo option"
  paymentFormValue :: DummyPaymentForm

definition onFineSelectionChange :: "string \<Rightarrow> bool \<Rightarrow> FinesComponent \<Rightarrow> FinesComponent" where
  "onFineSelectionChange fid isSelected c =
     (if isSelected
        then (if fid \<in> set (selectedFines c) then c
              else c\<lparr>selectedFines := selectedFines c @ [fid]\<rparr>)
      else c\<lparr>selectedFines := filter (\<lambda>x. x \<noteq> fid) (selectedFines c)\<rparr>)"

definition getSelectedFines :: "FinesComponent \<Rightarrow> FineRecord list" where
  "getSelectedFines c = filter (\<lambda>fine. fineId fine \<in> set (selectedFines c)) (filteredFines c)"

definition getSelectedTotal :: "FinesComponent \<Rightarrow> int" where
  "getSelectedTotal c = foldl (\<lambda>total fine. total + totalFine fine) 0 (getSelectedFines c)"

text \<open>
  \<open>FineService.validatePaymentData\<close>. The regular expression \<open>\s\<close> and \<open>trim\<close> treat tab,
  line feed, vertical tab, form feed, carriage return and space as white space.
\<close>

definition js_space :: "char \<Rightarrow> bool" where
  "js_space ch = (ch \<in> set [CHR 0x09, CHR 0x0A, CHR 0x0B, CHR 0x0C, CHR 0x0D, CHR 0x20])"

definition trim :: "string \<Rightarrow> string" where
  "trim s = rev (dropWhile js_space (rev (dropWhile js_space s)))"

definition falsy_or :: "(string \<Rightarrow> bool) \<Rightarrow> string option \<Rightarrow> bool" where
  "falsy_or P s = (case s of None \<Rightarrow> True | Some v \<Rightarrow> v = [] \<or> P v)"

definition validatePaymentData :: "PaymentMethod \<Rightarrow> DummyPaymentForm \<Rightarrow> string list" where
  "validatePaymentData method formData =
     (case method of
        Card \<Rightarrow>
          (if falsy_or (\<lambda>v. length (filter (\<lambda>ch. \<not> js_space ch) v) < 13) (cardNumber formData)
             then [''Invalid card number''] else [])
          @ (if falsy_or (\<lambda>v. length (trim v) < 2) (cardName formData)
             then [''Cardholder name is required''] else [])
          @ (if \<not> truthy (expiryMonth formData) \<or> \<not> truthy (expiryYear formData)
             then [''Expiry date is required''] else [])
          @ (if falsy_or (\<lambda>v. length v < 3) (cvv formData)
             then [''Valid CVV is required''] else [])
      | Upi \<Rightarrow>
          (if falsy_or (\<lambda>v. CHR ''@'' \<notin> set v) (upiId formData)
             then [''Valid UPI ID is required''] else [])
      | Netbanking \<Rightarrow>
          (if \<not> truthy (bankName formData) then [''Bank selection is required''] else [])
      | Wallet \<Rightarrow>
          (if \<not> truthy (walletProvider formData)
             then [''Wallet provider selection is required''] else [])
      | Cash \<Rightarrow> [])"

text \<open>
  \<open>onSubmitPayment\<close> up to its call of \<open>processPayment\<close>: it returns early without a user
  or a payment method, shows the validation errors, or submits the payment request and the
  form data. The form data is \<open>{paymentMethod: ..., ...paymentForm.value}\<close>, in which the
  fields of the form value come last and so are the ones kept.
\<close>

datatype SubmitOutcome =
    NotSubmitted
  | ValidationFailed "string list"
  | Submitted PaymentRequest DummyPaymentForm

definition onSubmitPayment :: "FinesComponent \<Rightarrow> SubmitOutcome" where
  "onSubmitPayment c =
     (case currentUser c of
        None \<Rightarrow> NotSubmitted
      | Some user \<Rightarrow>
          (case selectedPaymentMethod c of
             None \<Rightarrow> NotSubmitted
           | Some method \<Rightarrow>
               (let errors = validatePaymentData (methodId method) (paymentFormValue c)
                in if errors \<noteq> [] then ValidationFailed errors
                   else Submitted
                     \<lparr> memberId = userMemberId user,
                       fineIds = selectedFines c,
                       totalAmount = getSelectedTotal c,
                       paymentMethod = methodId method,
                       customerInfo = \<lparr> customerName = memberName user,
                         customerEmail = email user, customerPhone = None \<rparr> \<rparr>
                     (paymentFormValue c))))"

text \<open>
  The sum of the current totals of the fines a list of identifiers refers to, among the
  fines the component has loaded.
\<close>

definition referencedTotal :: "FineRecord list \<Rightarrow> string list \<Rightarrow> int" where
  "referencedTotal fs ids = sum_list (map totalFine (filter (\<lambda>fine. fineId fine \<in> set ids) fs))"

section \<open>Fine accrual\<close>

text \<open>
  Modelled from the spec: the fine accrual computation \<open>computeFine\<close> (section 4.3), which
  the backend performs; the repository's sources hold only the declaration of its rule
  (\<open>FineCalculationRule\<close>: \<open>dailyFineAmount\<close>, \<open>gracePeriodDays\<close>, optional \<open>maxFineAmount\<close>).
  \<open>daysOverdue = max(0, days(referenceDate) - days(dueDate) - gracePeriodDays)\<close> and
  \<open>amount = min(daysOverdue * dailyRate, maxFineAmount ?? +inf)\<close>. The two dates are given
  by their day numbers \<open>days(date)\<close>, counted from 1970-01-01; an absent maximum is \<open>None\<close>.
\<close>

definition computeFine :: "int \<Rightarrow> int \<Rightarrow> int \<Rightarrow> int \<Rightarrow> int option \<Rightarrow> int" where
  "computeFine dueDay referenceDay dailyRate gracePeriodDays maxFineAmount =
     (let daysLate = max 0 (referenceDay - dueDay - gracePeriodDays);
          amount = daysLate * dailyRate
      in case maxFineAmount of None \<Rightarrow> amount | Some m \<Rightarrow> min amount m)"

text \<open>A daily rate and a maximum are amounts of money: neither is negative.\<close>

definition amounts_ok :: "int \<Rightarrow> int option \<Rightarrow> bool" where
  "amounts_ok dailyRate maxFineAmount =
     (0 \<le> dailyRate \<and> (case maxFineAmount of None \<Rightarrow> True | Some m \<Rightarrow> 0 \<le> m))"

section \<open>Payment reconciliation\<close>

text \<open>
  Modelled from the spec: the payment reconciler \<open>pay\<close> (section 4.5), which runs behind
  \<open>POST /api/payments/process\<close>; the repository's sources hold only its caller
  (\<open>FineService.processPayment\<close>) and the declarations of the records it works on.
  \<open>pay\<close> rejects with \<open>AmountMismatch\<close> unless the current totals of the referenced fines
  add up to \<open>expectedTotal\<close>; it then asks the payment gateway for a terminal status; on
  \<open>COMPLETED\<close> it sets every referenced fine to \<open>PAID\<close> with the one payment identifier and
  sets \<open>finePaid\<close> and the frozen fine amount on the loan of each; on any other status it
  leaves everything as it was and returns the failure. The gateway is a parameter: it
  answers an amount and a method with a status and the payment identifier. An identifier
  with no fine in the table adds nothing to the sum and is passed over.
\<close>

record Engine =
  fineTable :: "string \<Rightarrow> FineRecord option"
  loanTable :: "string \<Rightarrow> BorrowHistoryEntry option"

datatype PayError = AmountMismatch | GatewayFailure PaymentStatus

definition currentFineAmounts :: "Engine \<Rightarrow> string list \<Rightarrow> int list" where
  "currentFineAmounts st ids =
     map (\<lambda>i. case fineTable st i of None \<Rightarrow> 0 | Some f \<Rightarrow> totalFine f) ids"

definition markPaid :: "string \<Rightarrow> FineRecord \<Rightarrow> FineRecord" where
  "markPaid pid f = f\<lparr>fineStatus := PAID, paymentId := Some pid\<rparr>"

definition settleLoan ::
  "FineRecord \<Rightarrow> (string \<Rightarrow> BorrowHistoryEntry option) \<Rightarrow> (string \<Rightarrow> BorrowHistoryEntry option)" where
  "settleLoan f loans =
     (case loans (borrowId f) of
        None \<Rightarrow> loans
      | Some loan \<Rightarrow> loans(borrowId f \<mapsto> loan\<lparr>finePaid := True, fineAmount := totalFine f\<rparr>))"

definition commitPayment :: "Engine \<Rightarrow> string list \<Rightarrow> string \<Rightarrow> Engine" where
  "commitPayment st ids pid =
     st\<lparr> fineTable :=
           (\<lambda>i. if i \<in> set ids then map_option (markPaid pid) (fineTable st i)
                else fineTable st i),
         loanTable :=
           fold (\<lambda>i loans. case fineTable st i of None \<Rightarrow> loans | Some f \<Rightarrow> settleLoan f loans)
             ids (loanTable st) \<rparr>"

definition pay ::
  "(int \<Rightarrow> PaymentMethod \<Rightarrow> PaymentStatus \<times> string) \<Rightarrow> Engine \<Rightarrow> string list \<Rightarrow> PaymentMethod
    \<Rightarrow> int \<Rightarrow> (PayError + string) \<times> Engine" where
  "pay gateway st ids method expectedTotal =
     (if sum_list (currentFineAmounts st ids) \<noteq> expectedTotal then (Inl AmountMismatch, st)
      else (case gateway expectedTotal method of
              (terminalStatus, pid) \<Rightarrow>
                if terminalStatus = COMPLETED then (Inr pid, commitPayment st ids pid)
                else (Inl (GatewayFailure terminalStatus), st)))"

section \<open>Concrete inputs\<close>

definition sample_request :: PaymentRequest where
  "sample_request =
     \<lparr> memberId = ''M1'', fineIds = [''F1''], totalAmount = 25, paymentMethod = Card,
       customerInfo = \<lparr> customerName = ''A Member'', customerEmail = ''a@example.org'',
         customerPhone = None \<rparr> \<rparr>"

definition sample_card_form :: DummyPaymentForm where
  "sample_card_form =
     \<lparr> formPaymentMethod = Card, cardNumber = Some ''4111111111111234'',
       cardName = Some ''A Member'', expiryMonth = Some ''12'', expiryYear = Some ''2030'',
       cvv = Some ''123'', upiId = Some [], bankName = Some [], walletProvider = Some [],
       walletNumber = Some [] \<rparr>"

definition sample_profile :: UserBorrowInfo where
  "sample_profile =
     \<lparr> libraryId = ''M1'', currentBorrowedCount = 5, maxBooksAllowed = 5, fines = 50,
       overdueBooks = 1, isEligible = True \<rparr>"

definition sample_books_component :: BooksComponent where
  "sample_books_component =
     \<lparr> userBorrowInfo = Some sample_profile, selectedBooks = [(''B1'', 1)],
       errorMessage = None, successMessage = None \<rparr>"

definition sample_loan :: BorrowHistoryEntry where
  "sample_loan =
     \<lparr> entryId = ''L1'', bookId = ''B1'', borrowDate = 0, dueDate = 1209600000,
       returnedDate = None, fineAmount = 0, finePaid = False, status = Borrowed,
       renewalCount = Some 0, maxRenewalsAllowed = Some 0 \<rparr>"

definition sample_user_data :: UserData where
  "sample_user_data =
     \<lparr> borrowInfo = None, borrowHistory = [sample_loan], statistics = None,
       isLoading = False, error = None \<rparr>"

definition sample_fine :: "string \<Rightarrow> int \<Rightarrow> FineRecord" where
  "sample_fine fid amount =
     \<lparr> fineId = fid, fineMemberId = ''M1'', borrowId = ''L1'', fineDueDate = 1209600000,
       returnDate = None, daysOverdue = amount div 5, dailyFine = 5, totalFine = amount,
       fineStatus = PENDING, paymentId = None \<rparr>"

definition sample_upi_form :: DummyPaymentForm where
  "sample_upi_form =
     \<lparr> formPaymentMethod = Upi, cardNumber = Some [], cardName = Some [],
       expiryMonth = Some [], expiryYear = Some [], cvv = Some [], upiId = Some ''a@bank'',
       bankName = Some [], walletProvider = Some [], walletNumber = Some [] \<rparr>"

definition sample_fines_component :: FinesComponent where
  "sample_fines_component =
     \<lparr> loadedFines = [sample_fine ''F1'' 10, sample_fine ''F2'' 20],
       filteredFines = [sample_fine ''F1'' 10],
       selectedFines = [''F1'', ''F2''],
       currentUser = Some \<lparr> userMemberId = ''M1'', memberName = ''A Member'',
         email = ''a@example.org'' \<rparr>,
       selectedPaymentMethod = Some \<lparr> methodId = Upi, isEnabled = True \<rparr>,
       paymentFormValue = sample_upi_form \<rparr>"

definition sample_engine :: Engine where
  "sample_engine =
     \<lparr> fineTable = (\<lambda>i. if i = ''F1'' then Some (sample_fine ''F1'' 10)
                       else if i = ''F2'' then Some (sample_fine ''F2'' 20) else None),
       loanTable = (\<lambda>b. if b = ''L1'' then Some sample_loan else None) \<rparr>"

definition gateway_completed :: "int \<Rightarrow> PaymentMethod \<Rightarrow> PaymentStatus \<times> string" where
  "gateway_completed amount method = (COMPLETED, ''PAY1'')"

definition gateway_failed :: "int \<Rightarrow> PaymentMethod \<Rightarrow> PaymentStatus \<times> string" where
  "gateway_failed amount method = (FAILED, ''PAY2'')"

section \<open>Theorems\<close>

text \<open>
  C9. The number of available borrowing slots is never negative: it is
  \<open>max(0, maxBooksAllowed - currentBorrowedCount)\<close> when a borrow profile is loaded,
  also when the borrowed count exceeds the maximum, and 0 when none is loaded.
\<close>

theorem available_slots_nonneg:
  "0 \<le> getAvailableBorrowingSlots d
   \<and> getAvailableBorrowingSlots (d\<lparr>borrowInfo := None\<rparr>) = 0
   \<and> getAvailableBorrowingSlots (d\<lparr>borrowInfo := Some info\<rparr>)
       = max 0 (maxBooksAllowed info - currentBorrowedCount info)"
  by (simp add: getAvailableBorrowingSlots_def getCurrentBorrowInfo_def split: option.split)

text \<open>
  C8. On any backend error neither statistics query propagates the failure:
  \<open>getFineStatistics\<close> answers with a zeroed \<open>FineStatistics\<close> (all totals 0, empty lists)
  and \<open>getUserStatistics\<close> with a zeroed \<open>UserStatistics\<close>, whatever the error was.
\<close>

theorem statistics_fallback_on_error:
  "getFineStatistics (Inl err) =
     Inr \<lparr> totalOutstandingFines = 0, totalOverdueBooks = 0, totalPaidFines = 0,
           totalWaivedFines = None, averageDaysOverdue = 0, averageFineAmount = None,
           finesByMonth = [], paymentHistory = [], finesByCategory = None \<rparr>
   \<and> getUserStatistics (Inl err) =
     Inr \<lparr> totalBooksRead = 0, currentlyBorrowed = 0, statOverdueBooks = 0, totalFines = 0,
           averageReadingTime = 0, favoriteGenres = [], readingStreak = 0,
           monthlyReadingGoal = 0, booksReadThisMonth = 0, yearlyReadingGoal = Some 0,
           booksReadThisYear = Some 0, memberRanking = Some 0, achievementsUnlocked = Some [] \<rparr>
   \<and> getFineStatistics r1 \<noteq> Inl err'
   \<and> getUserStatistics r2 \<noteq> Inl err'"
  by (simp add: getFineStatistics_def getUserStatistics_def defaultFineStats_def
      defaultUserStats_def split: sum.split)

text \<open>
  C10. The body posted to the payment endpoint never carries the card number of the form:
  for every form with a (non-empty) card number the posted \<open>cardNumber\<close> is the constant
  mask \<open>**** **** **** \<close> followed by the last 4 characters only, so two forms that differ
  only in the characters before the last 4 of the card number are posted as the same body.
\<close>

theorem card_number_masked:
  "(c \<noteq> [] \<longrightarrow>
      cardNumber (paymentDetails (requestData req (form\<lparr>cardNumber := Some c\<rparr>)))
        = Some (''**** **** **** '' @ drop (length c - 4) c))
   \<and> (length last4 = 4 \<longrightarrow>
      cardNumber (paymentDetails (requestData req (form\<lparr>cardNumber := Some (lead1 @ last4)\<rparr>)))
        = Some (''**** **** **** '' @ last4)
      \<and> requestData req (form\<lparr>cardNumber := Some (lead1 @ last4)\<rparr>)
        = requestData req (form\<lparr>cardNumber := Some (lead2 @ last4)\<rparr>))"
proof -
  have masked: "maskedCardNumber (Some (lead @ last4)) = Some (''**** **** **** '' @ last4)"
    if "length last4 = 4" for lead
    using that by (auto simp add: maskedCardNumber_def slice_last_def)
  show ?thesis
    by (simp add: requestData_def masked) (simp add: maskedCardNumber_def slice_last_def)
qed

theorem card_number_masked_witness:
  "''4111111111111234'' \<noteq> [] \<and> length ''1234'' = 4
   \<and> cardNumber (paymentDetails (requestData sample_request sample_card_form))
       = Some ''**** **** **** 1234''
   \<and> requestData sample_request (sample_card_form\<lparr>cardNumber := Some ''4111111111111234''\<rparr>)
       = requestData sample_request (sample_card_form\<lparr>cardNumber := Some ''5500000000001234''\<rparr>)"
proof -
  have same_form: "sample_card_form\<lparr>cardNumber := Some ''4111111111111234''\<rparr> = sample_card_form"
    by (simp add: sample_card_form_def)
  have field: "cardNumber (paymentDetails (requestData sample_request sample_card_form))
       = Some ''**** **** **** 1234''"
    using card_number_masked [of "''4111111111111234''" sample_request sample_card_form]
    by (simp add: same_form)
  have bodies: "requestData sample_request
        (sample_card_form\<lparr>cardNumber := Some (''411111111111'' @ ''1234'')\<rparr>)
       = requestData sample_request
        (sample_card_form\<lparr>cardNumber := Some (''550000000000'' @ ''1234'')\<rparr>)"
    using card_number_masked [of _ sample_request sample_card_form "''1234''"
        "''411111111111''" "''550000000000''"]
    by simp
  from field bodies show ?thesis by simp
qed

text \<open>
  C1. Eligibility for a new borrow is evaluated in a fixed order, the first failing reason
  winning. For every member profile and every selection (whose copies add up to the
  requested quantity): when \<open>currentBorrowedCount + requested\<close> exceeds the maximum allowed
  the result is the limit-exceeded error, whatever the fines and overdue books are;
  otherwise, when the fines are positive, the unpaid-fines error; otherwise, when the
  overdue count is positive, the overdue-books error; and no error is shown exactly when
  all three checks pass.
\<close>

theorem validateSelection_first_failure_wins:
  assumes "userBorrowInfo c = Some profile"
  shows "(currentBorrowedCount profile + getTotalSelectedCopies c > MAX_BOOKS_PER_USER \<longrightarrow>
            errorMessage (validateSelection c) = Some (LimitExceeded MAX_BOOKS_PER_USER))
       \<and> (\<not> currentBorrowedCount profile + getTotalSelectedCopies c > MAX_BOOKS_PER_USER
            \<and> fines profile > 0 \<longrightarrow>
            errorMessage (validateSelection c) = Some (HasUnpaidFines (fines profile)))
       \<and> (\<not> currentBorrowedCount profile + getTotalSelectedCopies c > MAX_BOOKS_PER_USER
            \<and> \<not> fines profile > 0 \<and> overdueBooks profile > 0 \<longrightarrow>
            errorMessage (validateSelection c) = Some (HasOverdueBooks (overdueBooks profile)))
       \<and> (errorMessage (validateSelection c) = None \<longleftrightarrow>
            \<not> currentBorrowedCount profile + getTotalSelectedCopies c > MAX_BOOKS_PER_USER
            \<and> \<not> fines profile > 0 \<and> \<not> overdueBooks profile > 0)"
  using assms by (simp add: validateSelection_def Let_def showError_def clearError_def)

theorem validateSelection_first_failure_wins_witness:
  "userBorrowInfo sample_books_component = Some sample_profile
   \<and> currentBorrowedCount sample_profile + getTotalSelectedCopies sample_books_component
       > MAX_BOOKS_PER_USER
   \<and> fines sample_profile > 0 \<and> overdueBooks sample_profile > 0
   \<and> errorMessage (validateSelection sample_books_component) = Some (LimitExceeded 5)"
  using validateSelection_first_failure_wins [of sample_books_component sample_profile]
  by (simp add: sample_books_component_def sample_profile_def getTotalSelectedCopies_def
      MAX_BOOKS_PER_USER_def)

text \<open>
  C6 as stated fails: a Borrowed loan whose due date has passed is overdue by the computed
  predicate, yet \<open>hasOverdueBooks\<close> is false and \<open>getOverdueBooksCount\<close> is 0 for a history
  that holds it.
\<close>

theorem hasOverdueBooks_ignores_due_date:
  "list_ex (spec_isOverdue 1209600001) (borrowHistory sample_user_data)
   \<and> \<not> hasOverdueBooks sample_user_data
   \<and> getOverdueBooksCount sample_user_data = 0"
  by (simp add: sample_user_data_def sample_loan_def spec_isOverdue_def hasOverdueBooks_def
      getOverdueBooksCount_def getCurrentBorrowHistory_def)

text \<open>
  C6, amended. \<open>hasOverdueBooks\<close> holds exactly when some entry of the borrow history has
  the stored status Overdue, and \<open>getOverdueBooksCount\<close> is the number of such entries;
  neither reads the clock, and neither changes when the due dates of the entries change.
\<close>

theorem overdue_is_stored_status:
  "hasOverdueBooks d = (Overdue \<in> set (map status (borrowHistory d)))
   \<and> getOverdueBooksCount d = int (count_list (map status (borrowHistory d)) Overdue)
   \<and> hasOverdueBooks (d\<lparr>borrowHistory := map (\<lambda>e. e\<lparr>dueDate := due e\<rparr>) (borrowHistory d)\<rparr>)
       = hasOverdueBooks d
   \<and> getOverdueBooksCount
        (d\<lparr>borrowHistory := map (\<lambda>e. e\<lparr>dueDate := due e\<rparr>) (borrowHistory d)\<rparr>)
       = getOverdueBooksCount d"
proof -
  have count: "length (filter (\<lambda>e. status e = Overdue) xs) = count_list (map status xs) Overdue"
    for xs :: "BorrowHistoryEntry list"
    by (induction xs) auto
  have kept: "filter (\<lambda>e. status e = Overdue) (map (\<lambda>e. e\<lparr>dueDate := due e\<rparr>) xs)
      = map (\<lambda>e. e\<lparr>dueDate := due e\<rparr>) (filter (\<lambda>e. status e = Overdue) xs)"
    for xs :: "BorrowHistoryEntry list"
    by (induction xs) auto
  have a: "hasOverdueBooks d = (Overdue \<in> set (map status (borrowHistory d)))"
    by (force simp add: hasOverdueBooks_def getCurrentBorrowHistory_def list_ex_iff)
  have b: "getOverdueBooksCount d = int (count_list (map status (borrowHistory d)) Overdue)"
    by (simp add: getOverdueBooksCount_def getCurrentBorrowHistory_def count)
  have c: "hasOverdueBooks (d\<lparr>borrowHistory := map (\<lambda>e. e\<lparr>dueDate := due e\<rparr>) (borrowHistory d)\<rparr>)
      = hasOverdueBooks d"
    by (auto simp add: hasOverdueBooks_def getCurrentBorrowHistory_def list_ex_iff)
  have e: "getOverdueBooksCount
        (d\<lparr>borrowHistory := map (\<lambda>e. e\<lparr>dueDate := due e\<rparr>) (borrowHistory d)\<rparr>)
      = getOverdueBooksCount d"
    by (simp add: getOverdueBooksCount_def getCurrentBorrowHistory_def kept)
  from a b c e show ?thesis by blast
qed

text \<open>
  Apart from a maximum of renewals that is 0, \<open>canExtendBook\<close> permits an extension only
  under the conditions of the specification.
\<close>

lemma canExtendBook_sound_for_nonzero_maximum:
  assumes "canExtendBook today entry" and "maxRenewalsAllowed entry \<noteq> Some 0"
  shows "spec_mayExtend today entry"
  using assms
  by (auto simp add: canExtendBook_def spec_mayExtend_def or_default_def getDaysUntilDue_def
      Let_def split: option.splits if_splits)

text \<open>
  C5 at the failing input: a Borrowed loan that is not yet due, with no renewal used and a
  maximum of 0 renewals, so its renewal count is not below its maximum; \<open>canExtendBook\<close>
  returns true for it, because \<open>maxRenewalsAllowed || 2\<close> replaces the 0 by 2.
\<close>

theorem canExtendBook_zero_maximum:
  "status sample_loan = Borrowed
   \<and> renewalCount sample_loan = Some 0 \<and> maxRenewalsAllowed sample_loan = Some 0
   \<and> \<not> spec_mayExtend 0 sample_loan
   \<and> canExtendBook 0 sample_loan"
  by (simp add: sample_loan_def spec_mayExtend_def canExtendBook_def or_default_def
      getDaysUntilDue_def)

text \<open>
  The total of a payment request is the sum over the selected fines of the displayed
  (filtered) list.
\<close>

lemma getSelectedTotal_displayed:
  "getSelectedTotal c = referencedTotal (filteredFines c) (selectedFines c)"
proof -
  have "foldl (\<lambda>total fine. total + totalFine fine) a fs = a + sum_list (map totalFine fs)"
    for a and fs :: "FineRecord list"
    by (induction fs arbitrary: a) auto
  then show ?thesis
    by (simp add: getSelectedTotal_def getSelectedFines_def referencedTotal_def)
qed

text \<open>
  The reconciler rejects a payment whose expected total is not the sum of the current
  totals of the referenced fines, and changes nothing.
\<close>

lemma pay_amount_mismatch:
  assumes "sum_list (currentFineAmounts st ids) \<noteq> expectedTotal"
  shows "pay gateway st ids method expectedTotal = (Inl AmountMismatch, st)"
  using assms by (simp add: pay_def)

text \<open>
  C7 at the failing input: the fines F1 (total 10) and F2 (total 20) are selected and the
  displayed list has been narrowed to F1. The submitted request refers to both fines, whose
  totals add up to 30, and carries the total 10.
\<close>

theorem onSubmitPayment_total_mismatch:
  "(case onSubmitPayment sample_fines_component of
      Submitted req form \<Rightarrow>
        fineIds req = [''F1'', ''F2''] \<and> totalAmount req = 10
        \<and> referencedTotal (loadedFines sample_fines_component) (fineIds req) = 30
        \<and> request (requestData req form) = req
    | ValidationFailed errors \<Rightarrow> False
    | NotSubmitted \<Rightarrow> False)"
  by (simp add: onSubmitPayment_def sample_fines_component_def sample_upi_form_def
      sample_fine_def validatePaymentData_def falsy_or_def getSelectedTotal_def
      getSelectedFines_def referencedTotal_def requestData_def)

text \<open>
  C3. For every due date, reference date, daily rate, grace period and optional maximum
  the fine is \<open>min(max(0, days(referenceDate) - days(dueDate) - gracePeriodDays) * dailyRate,
  maxFineAmount or infinity)\<close>. A loan due 2024-01-10 (day 19732) with daily rate 5 and
  grace 0 returned 2024-01-15 (day 19737) has fine 25, and returned 2024-01-10 fine 0.
  No fine is negative, the daily rate and the maximum being amounts of money.
\<close>

theorem computeFine_formula:
  "computeFine due ref rate grace None = max 0 (ref - due - grace) * rate
   \<and> computeFine due ref rate grace (Some cap) = min (max 0 (ref - due - grace) * rate) cap
   \<and> computeFine 19732 19737 5 0 None = 25
   \<and> computeFine 19732 19732 5 0 None = 0
   \<and> (amounts_ok rate maxFine \<longrightarrow> 0 \<le> computeFine due ref rate grace maxFine)"
  by (simp add: computeFine_def amounts_ok_def Let_def split: option.split)

theorem computeFine_formula_witness:
  "amounts_ok 5 (Some 100) \<and> 0 \<le> computeFine 19732 19800 5 0 (Some 100)
   \<and> computeFine 19732 19800 5 0 (Some 100) = 100
   \<and> computeFine 19732 19700 5 0 (Some 100) = 0"
  using computeFine_formula [where due = 19732 and ref = 19800 and rate = 5 and grace = 0
      and cap = 100 and maxFine = "Some 100"]
    computeFine_formula [where due = 19732 and ref = 19700 and rate = 5 and grace = 0
      and cap = 100 and maxFine = "Some 100"]
  by (simp add: amounts_ok_def)

text \<open>
  C4. Fine accrual is monotone in time: for a fixed due date, daily rate, grace period (and
  maximum), the fine does not decrease as the reference date advances, and it is exactly 0
  for every reference date up to the due date plus the grace period. The daily rate and
  the maximum are amounts of money.
\<close>

theorem computeFine_monotone:
  assumes "amounts_ok rate maxFine"
  shows "(earlier \<le> later \<longrightarrow>
            computeFine due earlier rate grace maxFine \<le> computeFine due later rate grace maxFine)
       \<and> (ref \<le> due + grace \<longrightarrow> computeFine due ref rate grace maxFine = 0)"
proof -
  have rate: "0 \<le> rate"
    using assms by (simp add: amounts_ok_def)
  have capped: "(case maxFine of None \<Rightarrow> a | Some m \<Rightarrow> min a m)
      \<le> (case maxFine of None \<Rightarrow> b | Some m \<Rightarrow> min b m)" if "a \<le> b" for a b :: int
    using that by (cases maxFine) auto
  have mono: "computeFine due earlier rate grace maxFine \<le> computeFine due later rate grace maxFine"
    if "earlier \<le> later"
  proof -
    have "max 0 (earlier - due - grace) \<le> max 0 (later - due - grace)"
      using that by simp
    then have "max 0 (earlier - due - grace) * rate \<le> max 0 (later - due - grace) * rate"
      using rate by (rule mult_right_mono)
    then show ?thesis
      unfolding computeFine_def Let_def by (rule capped)
  qed
  have zero: "computeFine due ref rate grace maxFine = 0" if "ref \<le> due + grace"
    using that assms by (simp add: computeFine_def amounts_ok_def Let_def split: option.splits)
  from mono zero show ?thesis by blast
qed

theorem computeFine_monotone_witness:
  "amounts_ok 5 None \<and> (19733::int) \<le> 19737 \<and> (19734::int) \<le> 19732 + 2
   \<and> computeFine 19732 19733 5 0 None \<le> computeFine 19732 19737 5 0 None
   \<and> computeFine 19732 19733 5 0 None = 5 \<and> computeFine 19732 19737 5 0 None = 25
   \<and> computeFine 19732 19734 5 2 None = 0"
  using computeFine_monotone [where rate = 5 and maxFine = None and earlier = 19733
      and later = 19737 and due = 19732 and grace = 0]
    computeFine_monotone [where rate = 5 and maxFine = None and ref = 19734
      and due = 19732 and grace = 2]
  by (simp add: amounts_ok_def computeFine_def)

text \<open>
  C2. Payment reconciliation is all or nothing: after \<open>pay\<close> returns, either it succeeded
  and every referenced fine is PAID and carries the one payment identifier it returned
  (nothing else of the fine changed), or it failed and the whole state, so every referenced
  fine, is as it was before the call. Fines that are not referenced never change.
\<close>

theorem pay_all_or_nothing:
  "((\<exists>pid. fst (pay gateway st ids method expectedTotal) = Inr pid
        \<and> (\<forall>i\<in>set ids. \<forall>f. fineTable st i = Some f \<longrightarrow>
              fineTable (snd (pay gateway st ids method expectedTotal)) i
                = Some (f\<lparr>fineStatus := PAID, paymentId := Some pid\<rparr>)))
     \<or> (\<exists>e. fst (pay gateway st ids method expectedTotal) = Inl e
        \<and> snd (pay gateway st ids method expectedTotal) = st))
   \<and> (\<forall>i. i \<notin> set ids \<longrightarrow>
         fineTable (snd (pay gateway st ids method expectedTotal)) i = fineTable st i)"
  by (auto simp add: pay_def commitPayment_def markPaid_def split: prod.splits)

theorem pay_all_or_nothing_witness:
  "fst (pay gateway_completed sample_engine [''F1'', ''F2''] Upi 30) = Inr ''PAY1''
   \<and> fineTable (snd (pay gateway_completed sample_engine [''F1'', ''F2''] Upi 30)) ''F1''
       = Some ((sample_fine ''F1'' 10)\<lparr>fineStatus := PAID, paymentId := Some ''PAY1''\<rparr>)
   \<and> fineTable (snd (pay gateway_completed sample_engine [''F1'', ''F2''] Upi 30)) ''F2''
       = Some ((sample_fine ''F2'' 20)\<lparr>fineStatus := PAID, paymentId := Some ''PAY1''\<rparr>)
   \<and> pay gateway_failed sample_engine [''F1'', ''F2''] Upi 30
       = (Inl (GatewayFailure FAILED), sample_engine)
   \<and> pay gateway_completed sample_engine [''F1'', ''F2''] Upi 25
       = (Inl AmountMismatch, sample_engine)"
proof -
  have run: "pay gateway_completed sample_engine [''F1'', ''F2''] Upi 30
      = (Inr ''PAY1'', commitPayment sample_engine [''F1'', ''F2''] ''PAY1'')"
    by (simp add: pay_def gateway_completed_def currentFineAmounts_def sample_engine_def
        sample_fine_def)
  have f1: "fineTable sample_engine ''F1'' = Some (sample_fine ''F1'' 10)"
    and f2: "fineTable sample_engine ''F2'' = Some (sample_fine ''F2'' 20)"
    by (simp_all add: sample_engine_def)
  have paid: "\<forall>i\<in>set [''F1'', ''F2'']. \<forall>f. fineTable sample_engine i = Some f \<longrightarrow>
      fineTable (snd (pay gateway_completed sample_engine [''F1'', ''F2''] Upi 30)) i
        = Some (f\<lparr>fineStatus := PAID, paymentId := Some ''PAY1''\<rparr>)"
    using pay_all_or_nothing [of gateway_completed sample_engine "[''F1'', ''F2'']" Upi 30]
    by (auto simp add: run)
  have failed: "pay gateway_failed sample_engine [''F1'', ''F2''] Upi 30
      = (Inl (GatewayFailure FAILED), sample_engine)"
    by (simp add: pay_def gateway_failed_def currentFineAmounts_def sample_engine_def
        sample_fine_def)
  have mismatch: "pay gateway_completed sample_engine [''F1'', ''F2''] Upi 25
      = (Inl AmountMismatch, sample_engine)"
    by (simp add: pay_def currentFineAmounts_def sample_engine_def sample_fine_def)
  from paid f1 f2 have "fineTable (snd (pay gateway_completed sample_engine [''F1'', ''F2''] Upi 30)) ''F1''
       = Some ((sample_fine ''F1'' 10)\<lparr>fineStatus := PAID, paymentId := Some ''PAY1''\<rparr>)"
    and "fineTable (snd (pay gateway_completed sample_engine [''F1'', ''F2''] Upi 30)) ''F2''
       = Some ((sample_fine ''F2'' 20)\<lparr>fineStatus := PAID, paymentId := Some ''PAY1''\<rparr>)"
    by simp_all
  with run failed mismatch show ?thesis by simp
qed

end
